theory Spec2Isabelle
  imports Main
begin

section \<open>Python values reaching computeSales.py\<close>

text \<open>
  The values \<open>json.load\<close> hands to the program: \<open>None\<close>, booleans, integers
  (unbounded), floats, strings, lists and dictionaries. The type \<open>'f\<close> stands for
  Python's \<open>float\<close>; its arithmetic and its formatting belong to the interpreter and
  are taken as the parameter \<open>float_ops\<close> below, so every theorem holds for the IEEE
  doubles of CPython as for any other implementation. A dictionary is an association
  list read with \<open>map_of\<close>. A string is a list of 8-bit characters, each one a code
  point below 256.
\<close>

datatype 'f json =
    JNull
  | JBool bool
  | JInt int
  | JFloat 'f
  | JStr string
  | JList "'f json list"
  | JDict "(string \<times> 'f json) list"

datatype exn_kind = OSError | JSONDecodeError | ValueError | TypeError | OverflowError | RecursionError

text \<open>An exception object: its class and \<open>str(exc)\<close>.\<close>

datatype exn = Exn exn_kind string

fun exn_kind_of :: "exn \<Rightarrow> exn_kind" where
  "exn_kind_of (Exn k m) = k"

fun exn_str :: "exn \<Rightarrow> string" where
  "exn_str (Exn k m) = m"

text \<open>\<open>isinstance(exc, cls)\<close>: \<open>JSONDecodeError\<close> is a subclass of \<open>ValueError\<close>.\<close>

fun exn_isinstance :: "exn \<Rightarrow> exn_kind \<Rightarrow> bool" where
  "exn_isinstance (Exn k m) c = (k = c \<or> (k = JSONDecodeError \<and> c = ValueError))"

definition caught_by :: "exn_kind list \<Rightarrow> exn \<Rightarrow> bool" where
  "caught_by cs e = list_ex (exn_isinstance e) cs"

record 'f float_ops =
  fzero :: 'f
  fadd :: "'f \<Rightarrow> 'f \<Rightarrow> 'f"
  fsub :: "'f \<Rightarrow> 'f \<Rightarrow> 'f"
  fmul :: "'f \<Rightarrow> 'f \<Rightarrow> 'f"
  float_of_int :: "int \<Rightarrow> 'f"
  float_of_str :: "string \<Rightarrow> 'f option"
  format_2f :: "'f \<Rightarrow> string"
  format_6f :: "'f \<Rightarrow> string"
  format_g :: "'f \<Rightarrow> string"
  float_str :: "'f \<Rightarrow> string"
  str_repr :: "string \<Rightarrow> string"

subsection \<open>Strings\<close>

definition sq :: string where
  "sq = [CHR 0x27]"

definition newline :: string where
  "newline = [CHR 0x0A]"

text \<open>The decimal digit of a number below ten.\<close>

definition digit_char :: "nat \<Rightarrow> char" where
  "digit_char d = ''0123456789'' ! d"

fun str_nat :: "nat \<Rightarrow> string" where
  "str_nat n = (if n < 10 then [digit_char n] else str_nat (n div 10) @ [digit_char (n mod 10)])"

declare str_nat.simps [simp del]

text \<open>\<open>str(n)\<close> of a Python integer.\<close>

definition str_int :: "int \<Rightarrow> string" where
  "str_int i = (if i < 0 then CHR ''-'' # str_nat (nat (- i)) else str_nat (nat i))"

text \<open>\<open>str.isspace\<close> on the code points below 256, and \<open>str.strip()\<close>.\<close>

definition isspace :: "char \<Rightarrow> bool" where
  "isspace c =
     (let n = (of_char c :: nat)
      in (9 \<le> n \<and> n \<le> 13) \<or> (28 \<le> n \<and> n \<le> 32) \<or> n = 133 \<or> n = 160)"

definition strip :: "string \<Rightarrow> string" where
  "strip s = rev (dropWhile isspace (rev (dropWhile isspace s)))"

fun intercalate :: "string \<Rightarrow> string list \<Rightarrow> string" where
  "intercalate sep [] = []"
| "intercalate sep [x] = x"
| "intercalate sep (x # y # ys) = x @ sep @ intercalate sep (y # ys)"

subsection \<open>\<open>str\<close>, \<open>dict.get\<close> and \<open>float\<close> on these values\<close>

fun py_repr :: "'f float_ops \<Rightarrow> 'f json \<Rightarrow> string" where
  "py_repr ops JNull = ''None''"
| "py_repr ops (JBool b) = (if b then ''True'' else ''False'')"
| "py_repr ops (JInt i) = str_int i"
| "py_repr ops (JFloat x) = float_str ops x"
| "py_repr ops (JStr s) = str_repr ops s"
| "py_repr ops (JList xs) = ''['' @ intercalate '', '' (map (py_repr ops) xs) @ '']''"
| "py_repr ops (JDict kvs) =
     ''{'' @ intercalate '', '' (map (\<lambda>(k, v). str_repr ops k @ '': '' @ py_repr ops v) kvs) @ ''}''"

definition py_str :: "'f float_ops \<Rightarrow> 'f json \<Rightarrow> string" where
  "py_str ops v = (case v of JStr s \<Rightarrow> s | _ \<Rightarrow> py_repr ops v)"

text \<open>\<open>d.get(k)\<close> is \<open>None\<close> when the key is absent; \<open>d.get(k, default)\<close> is the default.\<close>

definition dict_get_default :: "(string \<times> 'f json) list \<Rightarrow> string \<Rightarrow> 'f json \<Rightarrow> 'f json" where
  "dict_get_default d k dflt = (case map_of d k of None \<Rightarrow> dflt | Some v \<Rightarrow> v)"

definition dict_get :: "(string \<times> 'f json) list \<Rightarrow> string \<Rightarrow> 'f json" where
  "dict_get d k = dict_get_default d k JNull"

text \<open>
  \<open>float(v)\<close>. An integer that rounds (to nearest, ties to even) to \<open>2 ^ 1024\<close> or
  beyond has no double and raises \<open>OverflowError\<close>; a string that is no float literal
  raises \<open>ValueError\<close>; \<open>None\<close>, a list and a dictionary raise \<open>TypeError\<close>;
  \<open>bool\<close> is a subclass of \<open>int\<close>.
\<close>

definition DBL_INT_LIMIT :: int where
  "DBL_INT_LIMIT = 2 ^ 1024 - 2 ^ 970"

definition py_float :: "'f float_ops \<Rightarrow> 'f json \<Rightarrow> exn + 'f" where
  "py_float ops v =
     (case v of
        JNull \<Rightarrow> Inl (Exn TypeError (''float() argument must be a string or a real number, not '' @ sq @ ''NoneType'' @ sq))
      | JBool b \<Rightarrow> Inr (float_of_int ops (if b then 1 else 0))
      | JInt i \<Rightarrow>
          if DBL_INT_LIMIT \<le> \<bar>i\<bar> then Inl (Exn OverflowError ''int too large to convert to float'')
          else Inr (float_of_int ops i)
      | JFloat x \<Rightarrow> Inr x
      | JStr s \<Rightarrow>
          (case float_of_str ops s of
             None \<Rightarrow> Inl (Exn ValueError (''could not convert string to float: '' @ str_repr ops s))
           | Some x \<Rightarrow> Inr x)
      | JList xs \<Rightarrow> Inl (Exn TypeError (''float() argument must be a string or a real number, not '' @ sq @ ''list'' @ sq))
      | JDict d \<Rightarrow> Inl (Exn TypeError (''float() argument must be a string or a real number, not '' @ sq @ ''dict'' @ sq)))"

section \<open>computeSales.py\<close>

definition RESULTS_FILENAME :: string where
  "RESULTS_FILENAME = ''SalesResults.txt''"

record 'f SaleLine =
  sale_id :: string
  sale_date :: string
  product :: string
  quantity :: "'f"

text \<open>
  \<open>_safe_str\<close>: \<open>str(value)\<close>, and \<open>"<unprintable>"\<close> should \<open>str\<close> raise. On the
  values above \<open>str\<close> returns, so the handler is never entered.
\<close>

definition try_str :: "'f float_ops \<Rightarrow> 'f json \<Rightarrow> exn + string" where
  "try_str ops v = Inr (py_str ops v)"

definition safe_str :: "'f float_ops \<Rightarrow> 'f json \<Rightarrow> string" where
  "safe_str ops v = (case try_str ops v of Inl e \<Rightarrow> ''<unprintable>'' | Inr s \<Rightarrow> s)"

text \<open>
  A function that prints returns the lines it printed, in order, with its result; a
  result is \<open>Inl\<close> an exception that leaves the function, or \<open>Inr\<close> the value returned.
\<close>

type_synonym 'a printing = "string list \<times> (exn + 'a)"

fun emit :: "string list \<Rightarrow> 'a printing \<Rightarrow> 'a printing" where
  "emit out (out', r) = (out @ out', r)"

type_synonym 'f price_map = "string \<Rightarrow> 'f option"

subsection \<open>\<open>build_price_map\<close>\<close>

text \<open>One pass of the loop body over \<open>item\<close>, row number \<open>idx\<close>.\<close>

definition build_row ::
  "'f float_ops \<Rightarrow> nat \<Rightarrow> 'f json \<Rightarrow> 'f price_map \<Rightarrow> 'f price_map printing" where
  "build_row ops idx item prices =
     (case item of
        JDict d \<Rightarrow>
          (let title = dict_get d ''title''; price = dict_get d ''price''
           in case title of
                JStr t \<Rightarrow>
                  if strip t = [] then
                    ([''[Catalogue row '' @ str_nat idx @ ''] Missing/invalid 'title'. Skipping.''],
                     Inr prices)
                  else
                    (case py_float ops price of
                       Inl e \<Rightarrow>
                         if caught_by [TypeError, ValueError] e then
                           ([''[Catalogue row '' @ str_nat idx @ ''] Invalid 'price' for title ''
                               @ sq @ t @ sq @ '': '' @ safe_str ops price @ ''. Skipping.''],
                            Inr prices)
                         else ([], Inl e)
                     | Inr price_num \<Rightarrow> ([], Inr (prices(strip t \<mapsto> price_num))))
              | _ \<Rightarrow>
                  ([''[Catalogue row '' @ str_nat idx @ ''] Missing/invalid 'title'. Skipping.''],
                   Inr prices))
      | _ \<Rightarrow>
          ([''[Catalogue row '' @ str_nat idx @ ''] Invalid item (not an object). Skipping.''],
           Inr prices))"

fun build_loop ::
  "'f float_ops \<Rightarrow> nat \<Rightarrow> 'f json list \<Rightarrow> 'f price_map \<Rightarrow> 'f price_map printing" where
  "build_loop ops idx [] prices = ([], Inr prices)"
| "build_loop ops idx (item # rest) prices =
     (case build_row ops idx item prices of
        (out, Inl e) \<Rightarrow> (out, Inl e)
      | (out, Inr prices') \<Rightarrow> emit out (build_loop ops (idx + 1) rest prices'))"

definition build_price_map :: "'f float_ops \<Rightarrow> 'f json \<Rightarrow> 'f price_map printing" where
  "build_price_map ops catalogue_json =
     (case catalogue_json of
        JList items \<Rightarrow> build_loop ops 1 items Map.empty
      | _ \<Rightarrow> ([], Inl (Exn ValueError ''Price catalogue JSON must be a list of product objects.'')))"

subsection \<open>\<open>parse_sale_line\<close>\<close>

definition parse_sale_line ::
  "'f float_ops \<Rightarrow> 'f json \<Rightarrow> nat \<Rightarrow> 'f SaleLine option printing" where
  "parse_sale_line ops raw row_num =
     (case raw of
        JDict d \<Rightarrow>
          (let product = dict_get d ''Product''; quantity = dict_get d ''Quantity''
           in case product of
                JStr p \<Rightarrow>
                  if strip p = [] then
                    ([''[Sales row '' @ str_nat row_num @ ''] Missing/invalid 'Product'. Skipping.''],
                     Inr None)
                  else
                    (case py_float ops quantity of
                       Inl e \<Rightarrow>
                         if caught_by [TypeError, ValueError] e then
                           ([''[Sales row '' @ str_nat row_num @ ''] Invalid 'Quantity' for product ''
                               @ sq @ p @ sq @ '': '' @ safe_str ops quantity @ ''. Skipping.''],
                            Inr None)
                         else ([], Inl e)
                     | Inr qty0 \<Rightarrow>
                         (case py_float ops quantity of
                            Inl e \<Rightarrow>
                              if caught_by [TypeError, ValueError] e then
                                ([''[Sales row '' @ str_nat row_num @ ''] Invalid 'Quantity' for product ''
                                    @ sq @ p @ sq @ '': '' @ safe_str ops quantity @ ''. Skipping.''],
                                 Inr None)
                              else ([], Inl e)
                          | Inr qty \<Rightarrow>
                              ([], Inr (Some \<lparr> sale_id = safe_str ops (dict_get_default d ''SALE_ID'' (JStr ''N/A'')),
                                               sale_date = safe_str ops (dict_get_default d ''SALE_Date'' (JStr ''N/A'')),
                                               product = strip p,
                                               quantity = qty \<rparr>))))
              | _ \<Rightarrow>
                  ([''[Sales row '' @ str_nat row_num @ ''] Missing/invalid 'Product'. Skipping.''],
                   Inr None))
      | _ \<Rightarrow>
          ([''[Sales row '' @ str_nat row_num @ ''] Invalid row (not an object). Skipping.''],
           Inr None))"

subsection \<open>\<open>compute_total\<close>\<close>

text \<open>The loop's variables: \<open>total\<close>, \<open>detail_lines\<close>, \<open>valid_rows\<close>.\<close>

record 'f acc =
  total :: "'f"
  detail_lines :: "string list"
  valid_rows :: nat

definition detail_line :: "'f float_ops \<Rightarrow> 'f SaleLine \<Rightarrow> 'f \<Rightarrow> 'f \<Rightarrow> string" where
  "detail_line ops sale unit_price line_total =
     ''- SALE_ID='' @ sale_id sale @ '' | DATE='' @ sale_date sale @ '' | ''
       @ ''PRODUCT='' @ sq @ product sale @ sq @ '' | QTY='' @ format_g ops (quantity sale) @ '' | ''
       @ ''UNIT='' @ format_2f ops unit_price @ '' | LINE_TOTAL='' @ format_2f ops line_total"

text \<open>One pass of the loop body over \<open>raw_row\<close>, row number \<open>i\<close>.\<close>

definition sales_row ::
  "'f float_ops \<Rightarrow> 'f price_map \<Rightarrow> nat \<Rightarrow> 'f json \<Rightarrow> 'f acc \<Rightarrow> 'f acc printing" where
  "sales_row ops prices i raw_row a =
     (case parse_sale_line ops raw_row i of
        (out, Inl e) \<Rightarrow> (out, Inl e)
      | (out, Inr None) \<Rightarrow> (out, Inr a)
      | (out, Inr (Some sale)) \<Rightarrow>
          (let a1 = a\<lparr>valid_rows := valid_rows a + 1\<rparr>
           in case prices (product sale) of
                None \<Rightarrow>
                  (out @ [''[Sales row '' @ str_nat i @ ''] Product not found in catalogue: ''
                            @ sq @ product sale @ sq @ ''. '' @ ''Skipping.''],
                   Inr a1)
              | Some unit_price \<Rightarrow>
                  (let line_total = fmul ops unit_price (quantity sale)
                   in (out, Inr (a1\<lparr>total := fadd ops (total a1) line_total,
                                      detail_lines := detail_lines a1
                                        @ [detail_line ops sale unit_price line_total]\<rparr>)))))"

fun sales_loop ::
  "'f float_ops \<Rightarrow> 'f price_map \<Rightarrow> nat \<Rightarrow> 'f json list \<Rightarrow> 'f acc \<Rightarrow> 'f acc printing" where
  "sales_loop ops prices i [] a = ([], Inr a)"
| "sales_loop ops prices i (raw_row # rest) a =
     (case sales_row ops prices i raw_row a of
        (out, Inl e) \<Rightarrow> (out, Inl e)
      | (out, Inr a') \<Rightarrow> emit out (sales_loop ops prices (i + 1) rest a'))"

definition compute_total ::
  "'f float_ops \<Rightarrow> 'f price_map \<Rightarrow> 'f json \<Rightarrow> ('f \<times> string list) printing" where
  "compute_total ops prices sales_json =
     (case sales_json of
        JList rows \<Rightarrow>
          (case sales_loop ops prices 1 rows \<lparr>total = fzero ops, detail_lines = [], valid_rows = 0\<rparr> of
             (out, Inl e) \<Rightarrow> (out, Inl e)
           | (out, Inr a) \<Rightarrow>
               (out, Inr (total a, (''VALID_SALES_ROWS: '' @ str_nat (valid_rows a)) # detail_lines a)))
      | _ \<Rightarrow> ([], Inl (Exn ValueError ''Sales record JSON must be a list of sale objects.'')))"

subsection \<open>\<open>write_results\<close>\<close>

text \<open>
  What the program can change: the lines printed to standard output (one entry for each
  \<open>print\<close>), the lines of the traceback on standard error, and the contents of the
  files it writes. Printing and writing are taken to succeed.
\<close>

record world =
  stdout :: "string list"
  stderr :: "string list"
  files :: "string \<Rightarrow> string option"

definition print_line :: "string \<Rightarrow> world \<Rightarrow> world" where
  "print_line line w = w\<lparr>stdout := stdout w @ [line]\<rparr>"

fun print_all :: "string list \<Rightarrow> world \<Rightarrow> world" where
  "print_all [] w = w"
| "print_all (line # rest) w = print_all rest (print_line line w)"

text \<open>\<open>open(path, "w")\<close> creates the file or empties it; \<open>out.write(s)\<close> appends.\<close>

definition open_w :: "string \<Rightarrow> world \<Rightarrow> world" where
  "open_w path w = w\<lparr>files := (files w)(path \<mapsto> [])\<rparr>"

definition file_write :: "string \<Rightarrow> string \<Rightarrow> world \<Rightarrow> world" where
  "file_write path s w =
     w\<lparr>files := (files w)(path \<mapsto> (case files w path of None \<Rightarrow> [] | Some c \<Rightarrow> c) @ s)\<rparr>"

fun write_all :: "string \<Rightarrow> string list \<Rightarrow> world \<Rightarrow> world" where
  "write_all path [] w = w"
| "write_all path (line # rest) w = write_all path rest (file_write path (line @ newline) w)"

definition write_results :: "'f float_ops \<Rightarrow> 'f \<Rightarrow> string list \<Rightarrow> 'f \<Rightarrow> world \<Rightarrow> world" where
  "write_results ops total_cost details elapsed_seconds w =
     (let lines0 = [];
          lines1 = lines0 @ [''SALES SUMMARY''];
          lines2 = lines1 @ [''=============''];
          lines3 = lines2 @ details;
          lines4 = lines3 @ [[]];
          lines5 = lines4 @ [''TOTAL_COST: '' @ format_2f ops total_cost];
          lines6 = lines5 @ [''ELAPSED_SECONDS: '' @ format_6f ops elapsed_seconds];
          w1 = print_all lines6 w;
          w2 = open_w RESULTS_FILENAME w1
      in write_all RESULTS_FILENAME lines6 w2)"

subsection \<open>\<open>main\<close> and the script\<close>

text \<open>
  \<open>load_json_file\<close> opens a file and parses it; both belong to the environment, given
  as \<open>fs\<close>: the parsed value of each path, or the exception raised.
\<close>

definition load_json_file :: "(string \<Rightarrow> exn + 'f json) \<Rightarrow> string \<Rightarrow> exn + 'f json" where
  "load_json_file fs path = fs path"

text \<open>How a call of \<open>main\<close> ends: it returns, \<open>sys.exit(n)\<close>, or an exception leaves it.\<close>

datatype outcome = Returned | SysExit nat | Uncaught exn

text \<open>
  \<open>argv\<close> is \<open>sys.argv\<close>; \<open>clock0\<close> and \<open>clock1\<close> are the two readings of
  \<open>time.perf_counter()\<close>.
\<close>

definition main ::
  "'f float_ops \<Rightarrow> (string \<Rightarrow> exn + 'f json) \<Rightarrow> string list \<Rightarrow> 'f \<Rightarrow> 'f \<Rightarrow> world \<Rightarrow> world \<times> outcome" where
  "main ops fs argv clock0 clock1 w =
     (if length argv \<noteq> 3 then
        (print_line ''Usage: python computeSales.py priceCatalogue.json salesRecord.json'' w, SysExit 1)
      else
        (let catalogue_path = argv ! 1; sales_path = argv ! 2; start = clock0
         in case load_json_file fs catalogue_path of
              Inl exc \<Rightarrow>
                if caught_by [OSError, JSONDecodeError, ValueError] exc then
                  (print_line (''Error reading catalogue file '' @ sq @ catalogue_path @ sq @ '': ''
                                 @ exn_str exc) w, SysExit 1)
                else (w, Uncaught exc)
            | Inr catalogue_json \<Rightarrow>
                (case load_json_file fs sales_path of
                   Inl exc \<Rightarrow>
                     if caught_by [OSError, JSONDecodeError, ValueError] exc then
                       (print_line (''Error reading sales file '' @ sq @ sales_path @ sq @ '': ''
                                      @ exn_str exc) w, SysExit 1)
                     else (w, Uncaught exc)
                 | Inr sales_json \<Rightarrow>
                     (case build_price_map ops catalogue_json of
                        (out1, Inl exc) \<Rightarrow> (print_all out1 w, Uncaught exc)
                      | (out1, Inr prices) \<Rightarrow>
                          (let w1 = print_all out1 w
                           in case compute_total ops prices sales_json of
                                (out2, Inl exc) \<Rightarrow>
                                  if caught_by [ValueError] exc then
                                    (print_line (''Error processing data: '' @ exn_str exc)
                                       (print_all out2 w1), SysExit 1)
                                  else (print_all out2 w1, Uncaught exc)
                              | (out2, Inr (total_cost, details)) \<Rightarrow>
                                  (let w2 = print_all out2 w1;
                                       elapsed = fsub ops clock1 start
                                   in (write_results ops total_cost details elapsed w2, Returned)))))))"

text \<open>
  The script calls \<open>main()\<close> and nothing else. The interpreter ends the process with
  status 0 when \<open>main\<close> returns and with the argument of \<open>sys.exit\<close>; an exception that
  leaves \<open>main\<close> is reported on standard error as a traceback, whose last line names the
  exception and its message (the lines for the stack frames are left out here), and the
  status is 1.
\<close>

fun exn_name :: "exn_kind \<Rightarrow> string" where
  "exn_name OSError = ''OSError''"
| "exn_name JSONDecodeError = ''json.decoder.JSONDecodeError''"
| "exn_name ValueError = ''ValueError''"
| "exn_name TypeError = ''TypeError''"
| "exn_name OverflowError = ''OverflowError''"
| "exn_name RecursionError = ''RecursionError''"

definition traceback :: "exn \<Rightarrow> string list" where
  "traceback e = [''Traceback (most recent call last):'', exn_name (exn_kind_of e) @ '': '' @ exn_str e]"

definition script ::
  "'f float_ops \<Rightarrow> (string \<Rightarrow> exn + 'f json) \<Rightarrow> string list \<Rightarrow> 'f \<Rightarrow> 'f \<Rightarrow> world \<Rightarrow> world \<times> nat" where
  "script ops fs argv clock0 clock1 w =
     (case main ops fs argv clock0 clock1 w of
        (w', Returned) \<Rightarrow> (w', 0)
      | (w', SysExit n) \<Rightarrow> (w', n)
      | (w', Uncaught e) \<Rightarrow> (w'\<lparr>stderr := stderr w' @ traceback e\<rparr>, 1))"

section \<open>A float implementation to evaluate with\<close>

text \<open>
  The doubles that hold whole numbers, as integers: exact below \<open>2 ^ 53\<close>, where
  addition, subtraction and multiplication of doubles agree with those of the integers.
  \<open>whole_of_str\<close> reads an optional sign and decimal digits, surrounded by whitespace;
  the formats print the whole number with the zeros of its fraction (as Python does
  below \<open>10 ^ 6\<close> for \<open>g\<close>), and the \<open>repr\<close> of a string puts it between single quotes
  (as Python does for a printable string with no quote and no backslash).
\<close>

fun digit_val :: "char \<Rightarrow> nat option" where
  "digit_val c =
     (let n = (of_char c :: nat) in if 48 \<le> n \<and> n \<le> 57 then Some (n - 48) else None)"

fun nat_of_digits :: "nat \<Rightarrow> string \<Rightarrow> nat option" where
  "nat_of_digits a [] = Some a"
| "nat_of_digits a (c # cs) =
     (case digit_val c of None \<Rightarrow> None | Some d \<Rightarrow> nat_of_digits (10 * a + d) cs)"

definition whole_of_str :: "string \<Rightarrow> int option" where
  "whole_of_str s =
     (case strip s of
        [] \<Rightarrow> None
      | c # cs \<Rightarrow>
          if c = CHR ''-'' then
            (if cs = [] then None else map_option (\<lambda>n. - int n) (nat_of_digits 0 cs))
          else map_option int (nat_of_digits 0 (c # cs)))"

definition whole_ops :: "int float_ops" where
  "whole_ops =
     \<lparr> fzero = 0,
       fadd = (\<lambda>x y. x + y),
       fsub = (\<lambda>x y. x - y),
       fmul = (\<lambda>x y. x * y),
       float_of_int = (\<lambda>i. i),
       float_of_str = whole_of_str,
       format_2f = (\<lambda>x. str_int x @ ''.00''),
       format_6f = (\<lambda>x. str_int x @ ''.000000''),
       format_g = str_int,
       float_str = (\<lambda>x. str_int x @ ''.0''),
       str_repr = (\<lambda>s. sq @ s @ sq) \<rparr>"

text \<open>Inputs to evaluate the program on.\<close>

definition demo_prices :: "int price_map" where
  "demo_prices = [''Widget'' \<mapsto> 10]"

definition demo_sales :: "int json list" where
  "demo_sales =
     [JDict [(''Product'', JStr '' Widget''), (''Quantity'', JInt (- 3)), (''SALE_ID'', JNull)],
      JDict [(''Product'', JStr ''Nope''), (''Quantity'', JStr '' 4 '')],
      JDict [(''Product'', JStr ''Nope''), (''Quantity'', JStr ''abc'')],
      JDict [(''Product'', JStr ''Widget''), (''Quantity'', JBool True), (''SALE_ID'', JInt 7)]]"

definition demo_catalogue :: "int json list" where
  "demo_catalogue =
     [JDict [(''title'', JStr ''Widget ''), (''price'', JStr ''9'')],
      JInt 3,
      JDict [(''title'', JStr '' Widget''), (''price'', JInt 10)],
      JDict [(''title'', JStr ''Gadget''), (''price'', JNull)],
      JDict [(''title'', JStr ''Gadget''), (''price'', JInt 4)]]"

text \<open>The files of a run, and its command line.\<close>

definition demo_fs :: "string \<Rightarrow> exn + int json" where
  "demo_fs path =
     (if path = ''catalogue.json'' then Inr (JList demo_catalogue)
      else if path = ''sales.json'' then Inr (JList demo_sales)
      else if path = ''object.json'' then Inr (JDict [])
      else Inl (Exn OSError (''[Errno 2] No such file or directory: '' @ sq @ path @ sq)))"

definition demo_argv :: "string list" where
  "demo_argv = [''computeSales.py'', ''catalogue.json'', ''sales.json'']"

text \<open>A world in which something was printed already and the report file exists.\<close>

definition demo_world :: world where
  "demo_world =
     \<lparr> stdout = [''started''], stderr = [],
       files = [''SalesResults.txt'' \<mapsto> ''an older report''] \<rparr>"

section \<open>The notions of the specification\<close>

text \<open>
  A sales row passes row-level validation when \<open>parse_sale_line\<close> returns a Sale Line
  for it; the row number only enters the diagnostics. A row raises when an exception
  leaves \<open>parse_sale_line\<close>.
\<close>

definition validated :: "'f float_ops \<Rightarrow> 'f json \<Rightarrow> 'f SaleLine option" where
  "validated ops raw =
     (case snd (parse_sale_line ops raw 0) of Inr (Some sale) \<Rightarrow> Some sale | _ \<Rightarrow> None)"

definition raises :: "'f float_ops \<Rightarrow> 'f json \<Rightarrow> bool" where
  "raises ops raw = (case snd (parse_sale_line ops raw 0) of Inl e \<Rightarrow> True | Inr r \<Rightarrow> False)"

text \<open>
  The contribution of a row: \<open>unit_price \<times> quantity\<close> when the row is validated and its
  product is a key of the Price Map, nothing otherwise. The sum is taken in input
  order from \<open>0.0\<close>, with the addition of floats.
\<close>

definition priced :: "'f float_ops \<Rightarrow> 'f price_map \<Rightarrow> 'f json \<Rightarrow> 'f option" where
  "priced ops prices raw =
     (case validated ops raw of
        None \<Rightarrow> None
      | Some sale \<Rightarrow>
          (case prices (product sale) of
             None \<Rightarrow> None
           | Some unit_price \<Rightarrow> Some (fmul ops unit_price (quantity sale))))"

definition spec_total :: "'f float_ops \<Rightarrow> 'f price_map \<Rightarrow> 'f json list \<Rightarrow> 'f" where
  "spec_total ops prices rows =
     foldl (fadd ops) (fzero ops) (List.map_filter (priced ops prices) rows)"

text \<open>
  A catalogue row is valid when it is an object whose \<open>title\<close> is a string that is
  not blank and whose \<open>price\<close> coerces to a float; it then stands for the entry of its
  trimmed title and coerced price.
\<close>

definition catalogue_entry :: "'f float_ops \<Rightarrow> 'f json \<Rightarrow> (string \<times> 'f) option" where
  "catalogue_entry ops item =
     (case item of
        JDict d \<Rightarrow>
          (case dict_get d ''title'' of
             JStr t \<Rightarrow>
               if strip t = [] then None
               else (case py_float ops (dict_get d ''price'') of
                       Inl e \<Rightarrow> None
                     | Inr x \<Rightarrow> Some (strip t, x))
           | _ \<Rightarrow> None)
      | _ \<Rightarrow> None)"

text \<open>
  The diagnostic for a validated row whose product is no key of the Price Map, and the
  lines printed for the rows of a sales array when no product is a key: the diagnostics
  of \<open>parse_sale_line\<close> for a row that fails validation, the unknown-product
  diagnostic for a row that passes.
\<close>

definition unknown_product_line :: "nat \<Rightarrow> string \<Rightarrow> string" where
  "unknown_product_line i name =
     ''[Sales row '' @ str_nat i @ ''] Product not found in catalogue: '' @ sq @ name @ sq
       @ ''. Skipping.''"

fun empty_catalogue_diagnostics :: "'f float_ops \<Rightarrow> nat \<Rightarrow> 'f json list \<Rightarrow> string list" where
  "empty_catalogue_diagnostics ops i [] = []"
| "empty_catalogue_diagnostics ops i (raw # rest) =
     (case validated ops raw of
        None \<Rightarrow> fst (parse_sale_line ops raw i)
      | Some sale \<Rightarrow> [unknown_product_line i (product sale)])
     @ empty_catalogue_diagnostics ops (i + 1) rest"

text \<open>\<open>isinstance(v, list)\<close>: the top-level value is an array.\<close>

definition is_array :: "'f json \<Rightarrow> bool" where
  "is_array v = (case v of JList items \<Rightarrow> True | _ \<Rightarrow> False)"

section \<open>Properties\<close>

subsection \<open>Rows of the sales record\<close>

lemma emit_eq: "emit out p = (out', r) \<longleftrightarrow> (\<exists>out2. p = (out2, r) \<and> out' = out @ out2)"
  by (cases p) auto

lemma parse_sale_line_row_num:
  "snd (parse_sale_line ops raw i) = snd (parse_sale_line ops raw j)"
  by (simp add: parse_sale_line_def Let_def split: json.splits sum.splits option.splits)

lemma parse_sale_line_result:
  "snd (parse_sale_line ops raw i) = snd (parse_sale_line ops raw 0)"
  by (rule parse_sale_line_row_num)

text \<open>The only exception of \<open>float\<close> that the handlers let through.\<close>

lemma py_float_raises:
  "py_float ops v = Inl e \<Longrightarrow> \<not> caught_by [TypeError, ValueError] e \<Longrightarrow>
     e = Exn OverflowError ''int too large to convert to float''"
  by (auto simp: py_float_def caught_by_def split: json.splits if_splits option.splits)

lemma parse_sale_line_raises:
  "parse_sale_line ops raw i = (out, Inl e) \<Longrightarrow>
     out = [] \<and> e = Exn OverflowError ''int too large to convert to float''"
  by (auto simp: parse_sale_line_def Let_def split: json.splits sum.splits if_splits
      dest: py_float_raises)

lemma sales_row_total:
  assumes "sales_row ops prices i raw a = (out, Inr a')"
  shows "total a' = (case priced ops prices raw of None \<Rightarrow> total a | Some lt \<Rightarrow> fadd ops (total a) lt)"
proof -
  obtain o1 r1 where p: "parse_sale_line ops raw i = (o1, r1)"
    by (cases "parse_sale_line ops raw i")
  then have "snd (parse_sale_line ops raw 0) = r1"
    using parse_sale_line_result [of ops raw i] by simp
  with assms p show ?thesis
    by (auto simp: sales_row_def priced_def validated_def Let_def split: sum.splits option.splits)
qed

lemma sales_row_valid_rows:
  assumes "sales_row ops prices i raw a = (out, Inr a')"
  shows "valid_rows a' = valid_rows a + (if validated ops raw = None then 0 else 1)"
proof -
  obtain o1 r1 where p: "parse_sale_line ops raw i = (o1, r1)"
    by (cases "parse_sale_line ops raw i")
  then have "snd (parse_sale_line ops raw 0) = r1"
    using parse_sale_line_result [of ops raw i] by simp
  with assms p show ?thesis
    by (auto simp: sales_row_def validated_def Let_def split: sum.splits option.splits)
qed

lemma sales_row_raises:
  "(\<exists>out e. sales_row ops prices i raw a = (out, Inl e)) \<longleftrightarrow> raises ops raw"
proof -
  obtain o1 r1 where p: "parse_sale_line ops raw i = (o1, r1)"
    by (cases "parse_sale_line ops raw i")
  then have "snd (parse_sale_line ops raw 0) = r1"
    using parse_sale_line_result [of ops raw i] by simp
  with p show ?thesis
    by (auto simp: sales_row_def raises_def Let_def split: sum.splits option.splits)
qed

lemma sales_row_exn:
  assumes "sales_row ops prices i raw a = (out, Inl e)"
  shows "out = [] \<and> e = Exn OverflowError ''int too large to convert to float''"
proof -
  obtain o1 r1 where p: "parse_sale_line ops raw i = (o1, r1)"
    by (cases "parse_sale_line ops raw i")
  with assms have "r1 = Inl e" "o1 = out"
    by (auto simp: sales_row_def Let_def split: sum.splits option.splits)
  with p show ?thesis using parse_sale_line_raises by blast
qed

subsection \<open>The loop of \<open>compute_total\<close>\<close>

lemma sales_loop_total:
  "sales_loop ops prices i rows a = (out, Inr a') \<Longrightarrow>
     total a' = foldl (fadd ops) (total a) (List.map_filter (priced ops prices) rows)"
proof (induction rows arbitrary: i a out)
  case Nil
  then show ?case by (simp add: map_filter_simps)
next
  case (Cons raw rest)
  obtain o1 r1 where r: "sales_row ops prices i raw a = (o1, r1)"
    by (cases "sales_row ops prices i raw a")
  with Cons.prems obtain a1 o2 where a1: "r1 = Inr a1"
    and l: "sales_loop ops prices (i + 1) rest a1 = (o2, Inr a')"
    by (auto simp: emit_eq split: sum.splits)
  from r a1 have "total a1 = (case priced ops prices raw of None \<Rightarrow> total a | Some lt \<Rightarrow> fadd ops (total a) lt)"
    by (simp add: sales_row_total)
  with Cons.IH [OF l] show ?case
    by (simp add: map_filter_simps split: option.splits)
qed

lemma sales_loop_valid_rows:
  "sales_loop ops prices i rows a = (out, Inr a') \<Longrightarrow>
     valid_rows a' = valid_rows a + length (filter (\<lambda>raw. validated ops raw \<noteq> None) rows)"
proof (induction rows arbitrary: i a out)
  case Nil
  then show ?case by simp
next
  case (Cons raw rest)
  obtain o1 r1 where r: "sales_row ops prices i raw a = (o1, r1)"
    by (cases "sales_row ops prices i raw a")
  with Cons.prems obtain a1 o2 where a1: "r1 = Inr a1"
    and l: "sales_loop ops prices (i + 1) rest a1 = (o2, Inr a')"
    by (auto simp: emit_eq split: sum.splits)
  from r a1 have "valid_rows a1 = valid_rows a + (if validated ops raw = None then 0 else 1)"
    by (simp add: sales_row_valid_rows)
  with Cons.IH [OF l] show ?case by simp
qed

lemma sales_loop_raises:
  "(\<exists>out e. sales_loop ops prices i rows a = (out, Inl e)) \<longleftrightarrow> list_ex (raises ops) rows"
proof (induction rows arbitrary: i a)
  case Nil
  then show ?case by simp
next
  case (Cons raw rest)
  obtain o1 r1 where r: "sales_row ops prices i raw a = (o1, r1)"
    by (cases "sales_row ops prices i raw a")
  show ?case
  proof (cases r1)
    case (Inl e)
    with r have "raises ops raw" using sales_row_raises [of ops prices i raw a] by auto
    with r Inl show ?thesis by auto
  next
    case (Inr a1)
    with r have "\<not> raises ops raw" using sales_row_raises [of ops prices i raw a] by auto
    with r Inr Cons.IH [of "i + 1" a1] show ?thesis by (auto simp: emit_eq)
  qed
qed

lemma sales_loop_exn:
  "sales_loop ops prices i rows a = (out, Inl e) \<Longrightarrow>
     e = Exn OverflowError ''int too large to convert to float''"
proof (induction rows arbitrary: i a out)
  case Nil
  then show ?case by simp
next
  case (Cons raw rest)
  obtain o1 r1 where r: "sales_row ops prices i raw a = (o1, r1)"
    by (cases "sales_row ops prices i raw a")
  show ?case
  proof (cases r1)
    case (Inl e1)
    with r Cons.prems have "e1 = e" by simp
    with r Inl show ?thesis using sales_row_exn by blast
  next
    case (Inr a1)
    with r Cons.prems obtain o2 where "sales_loop ops prices (i + 1) rest a1 = (o2, Inl e)"
      by (auto simp: emit_eq)
    then show ?thesis by (rule Cons.IH)
  qed
qed

text \<open>
  Claim C1. For a sales array, the total that \<open>compute_total\<close> returns is the sum of
  \<open>unit_price \<times> quantity\<close> over exactly the rows that parse as a Sale Line and whose
  trimmed product is a key of the Price Map; the other rows contribute nothing.
  \<open>compute_total\<close> returns such a total unless a row raises, and then the exception
  that leaves it is the \<open>OverflowError\<close> of \<open>float\<close>.
\<close>

theorem compute_total_sum:
  assumes "compute_total ops prices (JList rows) = (out, res)"
  shows "if list_ex (raises ops) rows
         then res = Inl (Exn OverflowError ''int too large to convert to float'')
         else \<exists>details. res = Inr (spec_total ops prices rows, details)"
proof -
  let ?a0 = "\<lparr>total = fzero ops, detail_lines = [], valid_rows = 0\<rparr>"
  obtain o1 r1 where l: "sales_loop ops prices 1 rows ?a0 = (o1, r1)"
    by (cases "sales_loop ops prices 1 rows ?a0")
  show ?thesis
  proof (cases r1)
    case (Inl e)
    with l have "list_ex (raises ops) rows"
      using sales_loop_raises [of ops prices 1 rows ?a0] by auto
    moreover from l Inl have "e = Exn OverflowError ''int too large to convert to float''"
      using sales_loop_exn by blast
    ultimately show ?thesis using assms l Inl by (simp add: compute_total_def)
  next
    case (Inr a')
    with l have "\<not> list_ex (raises ops) rows"
      using sales_loop_raises [of ops prices 1 rows ?a0] by auto
    moreover from l Inr have "total a' = spec_total ops prices rows"
      using sales_loop_total [of ops prices 1 rows ?a0 o1 a'] by (simp add: spec_total_def)
    ultimately show ?thesis using assms l Inr by (auto simp: compute_total_def)
  qed
qed

theorem compute_total_sum_witness:
  "\<exists>details. snd (compute_total whole_ops demo_prices (JList demo_sales)) = Inr (- 20, details)"
proof -
  have "compute_total whole_ops demo_prices (JList demo_sales)
          = (fst (compute_total whole_ops demo_prices (JList demo_sales)),
             snd (compute_total whole_ops demo_prices (JList demo_sales)))"
    by simp
  from compute_total_sum [OF this]
  have "if list_ex (raises whole_ops) demo_sales
        then snd (compute_total whole_ops demo_prices (JList demo_sales))
               = Inl (Exn OverflowError ''int too large to convert to float'')
        else \<exists>details. snd (compute_total whole_ops demo_prices (JList demo_sales))
               = Inr (spec_total whole_ops demo_prices demo_sales, details)" .
  moreover have "\<not> list_ex (raises whole_ops) demo_sales" by code_simp
  moreover have "spec_total whole_ops demo_prices demo_sales = - 20" by code_simp
  ultimately show ?thesis by simp
qed

text \<open>
  Claim C2. For a sales array, the first of the detail lines that \<open>compute_total\<close>
  returns is \<open>VALID_SALES_ROWS: \<close> followed by the number of rows that passed row-level
  validation, whether or not their product is a key of the Price Map.
\<close>

theorem valid_sales_rows_line:
  assumes "compute_total ops prices (JList rows) = (out, Inr (t, details))"
  shows "details \<noteq> [] \<and>
         hd details = ''VALID_SALES_ROWS: ''
           @ str_nat (length (filter (\<lambda>raw. validated ops raw \<noteq> None) rows))"
proof -
  let ?a0 = "\<lparr>total = fzero ops, detail_lines = [], valid_rows = 0\<rparr>"
  from assms obtain o1 a' where l: "sales_loop ops prices 1 rows ?a0 = (o1, Inr a')"
    and d: "details = (''VALID_SALES_ROWS: '' @ str_nat (valid_rows a')) # detail_lines a'"
    by (auto simp: compute_total_def split: sum.splits prod.splits)
  from sales_loop_valid_rows [OF l] d show ?thesis by simp
qed

theorem valid_sales_rows_line_witness:
  "\<exists>out t details.
     compute_total whole_ops demo_prices (JList demo_sales) = (out, Inr (t, details))
     \<and> details \<noteq> [] \<and> hd details = ''VALID_SALES_ROWS: 3''"
proof -
  let ?details =
    "[''VALID_SALES_ROWS: 3'',
      ''- SALE_ID=None | DATE=N/A | PRODUCT='Widget' | QTY=-3 | UNIT=10.00 | LINE_TOTAL=-30.00'',
      ''- SALE_ID=7 | DATE=N/A | PRODUCT='Widget' | QTY=1 | UNIT=10.00 | LINE_TOTAL=10.00'']"
  have "snd (compute_total whole_ops demo_prices (JList demo_sales)) = Inr (- 20, ?details)"
    by code_simp
  then have e: "compute_total whole_ops demo_prices (JList demo_sales)
      = (fst (compute_total whole_ops demo_prices (JList demo_sales)), Inr (- 20, ?details))"
    by (simp add: prod_eq_iff)
  have "str_nat (length (filter (\<lambda>raw. validated whole_ops raw \<noteq> None) demo_sales)) = ''3''"
    by code_simp
  with valid_sales_rows_line [OF e] have "?details \<noteq> [] \<and> hd ?details = ''VALID_SALES_ROWS: 3''"
    by simp
  with e show ?thesis by blast
qed

subsection \<open>An exception that leaves \<open>parse_sale_line\<close>\<close>

text \<open>
  Claim C9. \<open>parse_sale_line\<close> is to return a Sale Line or \<open>None\<close> for every value
  and never to raise. It raises on a row whose \<open>Quantity\<close> is an integer with no
  double: \<open>float\<close> raises \<open>OverflowError\<close>, which neither handler catches.
\<close>

theorem parse_sale_line_overflow:
  "parse_sale_line ops (JDict [(''Product'', JStr ''A''), (''Quantity'', JInt (2 ^ 1024))]) row_num
     = ([], Inl (Exn OverflowError ''int too large to convert to float''))"
  by (simp add: parse_sale_line_def dict_get_def dict_get_default_def strip_def isspace_def
      py_float_def DBL_INT_LIMIT_def caught_by_def)


subsection \<open>Accepted rows\<close>

lemma parse_sale_line_accepts:
  assumes "dict_get d ''Product'' = JStr p" and "strip p \<noteq> []"
    and "py_float ops (dict_get d ''Quantity'') = Inr q"
  shows "parse_sale_line ops (JDict d) i =
           ([], Inr (Some \<lparr> sale_id = safe_str ops (dict_get_default d ''SALE_ID'' (JStr ''N/A'')),
                             sale_date = safe_str ops (dict_get_default d ''SALE_Date'' (JStr ''N/A'')),
                             product = strip p, quantity = q \<rparr>))"
  using assms by (simp add: parse_sale_line_def Let_def)

lemma parse_sale_line_Some:
  assumes "parse_sale_line ops (JDict d) i = (out, Inr (Some sale))"
  shows "sale_id sale = safe_str ops (dict_get_default d ''SALE_ID'' (JStr ''N/A''))
       \<and> sale_date sale = safe_str ops (dict_get_default d ''SALE_Date'' (JStr ''N/A''))"
proof (cases "dict_get d ''Product''")
  case (JStr p)
  show ?thesis
  proof (cases "py_float ops (dict_get d ''Quantity'')")
    case (Inl e)
    show ?thesis using assms by (simp add: parse_sale_line_def Let_def JStr Inl split: if_splits)
  next
    case (Inr q)
    show ?thesis using assms by (auto simp add: parse_sale_line_def Let_def JStr Inr split: if_splits)
  qed
qed (use assms in \<open>simp_all add: parse_sale_line_def Let_def\<close>)

lemma safe_str_get:
  "safe_str ops (dict_get_default d k (JStr ''N/A'')) =
     (case map_of d k of None \<Rightarrow> ''N/A'' | Some v \<Rightarrow> if v = JNull then ''None'' else py_str ops v)"
  by (simp add: safe_str_def try_str_def dict_get_default_def py_str_def split: option.splits)

text \<open>
  Claim C10. In a row that parses as a Sale Line, a key \<open>SALE_ID\<close> (or \<open>SALE_Date\<close>)
  that is present with the value \<open>null\<close> gives the field the string \<open>None\<close>; the
  default \<open>N/A\<close> is taken only when the key is absent from the row, and a key present
  with another value gives \<open>str\<close> of that value.
\<close>

theorem null_sale_id_is_None:
  assumes "parse_sale_line ops (JDict d) row_num = (out, Inr (Some sale))"
  shows "sale_id sale =
           (case map_of d ''SALE_ID'' of
              None \<Rightarrow> ''N/A''
            | Some v \<Rightarrow> if v = JNull then ''None'' else py_str ops v)
       \<and> sale_date sale =
           (case map_of d ''SALE_Date'' of
              None \<Rightarrow> ''N/A''
            | Some v \<Rightarrow> if v = JNull then ''None'' else py_str ops v)"
  using parse_sale_line_Some [OF assms] by (simp only: safe_str_get)


theorem null_sale_id_is_None_witness:
  "\<exists>out sale.
     parse_sale_line whole_ops (demo_sales ! 0) 1 = (out, Inr (Some sale))
     \<and> sale_id sale = ''None'' \<and> sale_date sale = ''N/A''"
proof -
  let ?d = "[(''Product'', JStr '' Widget''), (''Quantity'', JInt (- 3)), (''SALE_ID'', JNull)]"
  let ?sale = "\<lparr>sale_id = ''None'', sale_date = ''N/A'', product = ''Widget'', quantity = - 3 :: int\<rparr>"
  have r: "demo_sales ! 0 = JDict ?d" by (simp add: demo_sales_def)
  have p: "parse_sale_line whole_ops (JDict ?d) 1 = ([], Inr (Some ?sale))" by code_simp
  from null_sale_id_is_None [OF p] have "sale_id ?sale = ''None'' \<and> sale_date ?sale = ''N/A''"
    by simp
  with p r show ?thesis by simp
qed

lemma sales_row_priced:
  assumes "parse_sale_line ops raw i = ([], Inr (Some sale))"
    and "prices (product sale) = Some unit_price"
  shows "sales_row ops prices i raw a =
           ([], Inr (a\<lparr>valid_rows := valid_rows a + 1,
                        total := fadd ops (total a) (fmul ops unit_price (quantity sale)),
                        detail_lines := detail_lines a
                          @ [detail_line ops sale unit_price (fmul ops unit_price (quantity sale))]\<rparr>))"
  using assms by (simp add: sales_row_def Let_def)

lemma sales_loop_append:
  "sales_loop ops prices i (xs @ ys) a =
     (case sales_loop ops prices i xs a of
        (out, Inl e) \<Rightarrow> (out, Inl e)
      | (out, Inr a') \<Rightarrow> emit out (sales_loop ops prices (i + length xs) ys a'))"
proof (induction xs arbitrary: i a)
  case Nil
  show ?case by (cases "sales_loop ops prices i ys a") simp
next
  case (Cons x xs)
  show ?case
  proof (cases "sales_row ops prices i x a")
    case (Pair o1 r1)
    show ?thesis
    proof (cases r1)
      case (Inl e)
      with Pair show ?thesis by simp
    next
      case (Inr a1)
      obtain o2 r2 where l: "sales_loop ops prices (i + 1) xs a1 = (o2, r2)"
        by (cases "sales_loop ops prices (i + 1) xs a1")
      obtain o3 r3 where l3: "sales_loop ops prices (i + 1 + length xs) ys (projr r2) = (o3, r3)"
        by (cases "sales_loop ops prices (i + 1 + length xs) ys (projr r2)")
      from Pair Inr l l3 Cons.IH [of "i + 1" a1] show ?thesis
        by (cases r2) (simp_all add: add.assoc)
    qed
  qed
qed

lemma sales_row_unpriced:
  assumes "parse_sale_line ops raw i = ([], Inr (Some sale))"
    and "prices (product sale) = None"
  shows "sales_row ops prices i raw a =
           ([''[Sales row '' @ str_nat i @ ''] Product not found in catalogue: ''
               @ sq @ product sale @ sq @ ''. '' @ ''Skipping.''],
            Inr (a\<lparr>valid_rows := valid_rows a + 1\<rparr>))"
  using assms by (simp add: sales_row_def Let_def)

text \<open>
  Claim C4. A row whose \<open>Product\<close> is a string that is not blank and whose
  \<open>Quantity\<close> coerces to a float \<open>q\<close> is accepted by \<open>parse_sale_line\<close> whatever
  the sign of \<open>q\<close>, negative and zero included: there is no test on it. In
  \<open>compute_total\<close> the row, coming after rows whose total is \<open>t\<close>, makes the total
  returned \<open>t + unit_price \<times> q\<close> when its product has a price (and leaves it \<open>t\<close>
  otherwise); alone in the sales array it makes the total \<open>0.0 + unit_price \<times> q\<close>.
\<close>

theorem any_sign_quantity_accepted:
  assumes "map_of d ''Product'' = Some (JStr p)" and "strip p \<noteq> []"
    and "py_float ops (dict_get d ''Quantity'') = Inr q"
    and "compute_total ops prices (JList rows) = (out, Inr (t, details))"
  shows "(\<exists>sale. parse_sale_line ops (JDict d) i = ([], Inr (Some sale))
            \<and> product sale = strip p \<and> quantity sale = q)
       \<and> (\<exists>out' details'.
            compute_total ops prices (JList (rows @ [JDict d]))
              = (out', Inr (case prices (strip p) of
                              None \<Rightarrow> t
                            | Some unit_price \<Rightarrow> fadd ops t (fmul ops unit_price q),
                            details')))
       \<and> (\<exists>out1 details1.
            compute_total ops prices (JList [JDict d])
              = (out1, Inr (case prices (strip p) of
                              None \<Rightarrow> fzero ops
                            | Some unit_price \<Rightarrow> fadd ops (fzero ops) (fmul ops unit_price q),
                            details1)))"
proof -
  let ?sale = "\<lparr> sale_id = safe_str ops (dict_get_default d ''SALE_ID'' (JStr ''N/A'')),
                 sale_date = safe_str ops (dict_get_default d ''SALE_Date'' (JStr ''N/A'')),
                 product = strip p, quantity = q \<rparr>"
  let ?a0 = "\<lparr>total = fzero ops, detail_lines = [], valid_rows = 0\<rparr>"
  from assms(1) have g: "dict_get d ''Product'' = JStr p"
    by (simp add: dict_get_def dict_get_default_def)
  have p: "parse_sale_line ops (JDict d) j = ([], Inr (Some ?sale))" for j
    using g assms(2,3) by (rule parse_sale_line_accepts)
  have row: "\<exists>o1 a1. sales_row ops prices j (JDict d) a = (o1, Inr a1)
        \<and> total a1 = (case prices (strip p) of
                         None \<Rightarrow> t0
                       | Some unit_price \<Rightarrow> fadd ops t0 (fmul ops unit_price q))"
    if "total a = t0" for j a t0
  proof (cases "prices (strip p)")
    case None
    then have "prices (product ?sale) = None" by simp
    from sales_row_unpriced [of ops "JDict d" j ?sale prices a, OF p this] None that
    show ?thesis by simp
  next
    case (Some unit_price)
    then have "prices (product ?sale) = Some unit_price" by simp
    from sales_row_priced [of ops "JDict d" j ?sale prices unit_price a, OF p this] Some that
    show ?thesis by simp
  qed
  have loop1: "\<exists>o1 a1. sales_loop ops prices j [JDict d] a = (o1, Inr a1)
        \<and> total a1 = (case prices (strip p) of
                         None \<Rightarrow> t0
                       | Some unit_price \<Rightarrow> fadd ops t0 (fmul ops unit_price q))"
    if "total a = t0" for j a t0
    using row [OF that, of j] by auto
  from assms(4) obtain a' where l: "sales_loop ops prices (Suc 0) rows ?a0 = (out, Inr a')"
    and t: "total a' = t"
    by (auto simp: compute_total_def split: sum.splits prod.splits)
  from loop1 [OF t, of "Suc (length rows)"] obtain o1 a1
    where l1: "sales_loop ops prices (Suc (length rows)) [JDict d] a' = (o1, Inr a1)"
      and t1: "total a1 = (case prices (strip p) of
                             None \<Rightarrow> t
                           | Some unit_price \<Rightarrow> fadd ops t (fmul ops unit_price q))"
    by blast
  have "sales_loop ops prices (Suc 0) (rows @ [JDict d]) ?a0 = (out @ o1, Inr a1)"
    by (simp add: sales_loop_append l l1 del: sales_loop.simps)
  then have 2: "\<exists>out' details'.
            compute_total ops prices (JList (rows @ [JDict d]))
              = (out', Inr (case prices (strip p) of
                              None \<Rightarrow> t
                            | Some unit_price \<Rightarrow> fadd ops t (fmul ops unit_price q),
                            details'))"
    by (simp add: compute_total_def t1)
  have "total ?a0 = fzero ops" by simp
  from loop1 [OF this, of "Suc 0"] obtain o2 a2
    where l2: "sales_loop ops prices (Suc 0) [JDict d] ?a0 = (o2, Inr a2)"
      and t2: "total a2 = (case prices (strip p) of
                             None \<Rightarrow> fzero ops
                           | Some unit_price \<Rightarrow> fadd ops (fzero ops) (fmul ops unit_price q))"
    by blast
  then have 3: "\<exists>out1 details1.
            compute_total ops prices (JList [JDict d])
              = (out1, Inr (case prices (strip p) of
                              None \<Rightarrow> fzero ops
                            | Some unit_price \<Rightarrow> fadd ops (fzero ops) (fmul ops unit_price q),
                            details1))"
    by (simp add: compute_total_def del: sales_loop.simps)
  from p [of i] 2 3 show ?thesis by simp
qed

theorem any_sign_quantity_accepted_witness:
  "\<exists>sale out' details' out1 details1.
     parse_sale_line whole_ops (demo_sales ! 0) 2 = ([], Inr (Some sale))
     \<and> quantity sale = - 3
     \<and> compute_total whole_ops demo_prices (JList ([demo_sales ! 3] @ [demo_sales ! 0]))
         = (out', Inr (- 20, details'))
     \<and> compute_total whole_ops demo_prices (JList [demo_sales ! 0]) = (out1, Inr (- 30, details1))"
proof -
  let ?d = "[(''Product'', JStr '' Widget''), (''Quantity'', JInt (- 3)), (''SALE_ID'', JNull)]"
  let ?r = "JDict [(''Product'', JStr ''Widget''), (''Quantity'', JBool True), (''SALE_ID'', JInt 7)] :: int json"
  have r0: "demo_sales ! 0 = JDict ?d" and r3: "demo_sales ! 3 = ?r" by (simp_all add: demo_sales_def)
  have 1: "map_of ?d ''Product'' = Some (JStr '' Widget'')" by simp
  have 2: "strip '' Widget'' \<noteq> []" by code_simp
  have 3: "py_float whole_ops (dict_get ?d ''Quantity'') = Inr (- 3)" by code_simp
  have 4: "compute_total whole_ops demo_prices (JList [?r]) =
      ([], Inr (10, [''VALID_SALES_ROWS: 1'',
         ''- SALE_ID=7 | DATE=N/A | PRODUCT='Widget' | QTY=1 | UNIT=10.00 | LINE_TOTAL=10.00'']))"
    by code_simp
  have 5: "demo_prices (strip '' Widget'') = Some 10" by code_simp
  have 6: "fadd whole_ops 10 (fmul whole_ops 10 (- 3)) = - 20" by code_simp
  have 7: "fadd whole_ops (fzero whole_ops) (fmul whole_ops 10 (- 3)) = - 30" by code_simp
  from any_sign_quantity_accepted [OF 1 2 3 4, of 2]
  show ?thesis unfolding r0 r3 5 option.case 6 7 by blast
qed

subsection \<open>The report\<close>

lemma print_all_stdout: "print_all ls w = w\<lparr>stdout := stdout w @ ls\<rparr>"
  by (induction ls arbitrary: w) (simp_all add: print_line_def)

lemma write_all_files:
  "files w path = Some c \<Longrightarrow>
     write_all path ls w = w\<lparr>files := (files w)(path \<mapsto> c @ concat (map (\<lambda>l. l @ newline) ls))\<rparr>"
proof (induction ls arbitrary: w c)
  case Nil
  then show ?case by (simp add: fun_upd_idem)
next
  case (Cons l ls)
  let ?w = "w\<lparr>files := (files w)(path \<mapsto> c @ l @ newline)\<rparr>"
  have w: "file_write path (l @ newline) w = ?w"
    using Cons.prems by (simp add: file_write_def)
  have "files ?w path = Some (c @ l @ newline)" by simp
  then have "write_all path ls ?w =
      ?w\<lparr>files := (files ?w)(path \<mapsto> (c @ l @ newline) @ concat (map (\<lambda>l. l @ newline) ls))\<rparr>"
    by (rule Cons.IH)
  also have "\<dots> = w\<lparr>files := (files w)(path \<mapsto> c @ concat (map (\<lambda>l. l @ newline) (l # ls)))\<rparr>"
    by simp
  finally show ?case unfolding write_all.simps w .
qed

lemma write_results_eq:
  "write_results ops t details e w =
     w\<lparr>stdout := stdout w
          @ (''SALES SUMMARY'' # ''============='' # details
             @ [[], ''TOTAL_COST: '' @ format_2f ops t, ''ELAPSED_SECONDS: '' @ format_6f ops e]),
       files := (files w)(RESULTS_FILENAME \<mapsto>
          concat (map (\<lambda>l. l @ newline)
            (''SALES SUMMARY'' # ''============='' # details
             @ [[], ''TOTAL_COST: '' @ format_2f ops t, ''ELAPSED_SECONDS: '' @ format_6f ops e])))\<rparr>"
proof -
  let ?ls = "''SALES SUMMARY'' # ''============='' # details
             @ [[], ''TOTAL_COST: '' @ format_2f ops t, ''ELAPSED_SECONDS: '' @ format_6f ops e]"
  let ?w2 = "open_w RESULTS_FILENAME (print_all ?ls w)"
  have "files ?w2 RESULTS_FILENAME = Some []" by (simp add: open_w_def)
  from write_all_files [OF this, of ?ls]
  have "write_all RESULTS_FILENAME ?ls ?w2 =
          ?w2\<lparr>files := (files ?w2)(RESULTS_FILENAME \<mapsto> concat (map (\<lambda>l. l @ newline) ?ls))\<rparr>"
    by simp
  moreover have "write_results ops t details e w = write_all RESULTS_FILENAME ?ls ?w2"
    by (simp add: write_results_def)
  ultimately show ?thesis by (simp add: open_w_def print_all_stdout)
qed

text \<open>
  Claim C5. \<open>write_results\<close> emits the lines \<open>SALES SUMMARY\<close>, \<open>=============\<close>, the
  detail lines in order, an empty line, \<open>TOTAL_COST: \<close> with the total to 2 decimals and
  \<open>ELAPSED_SECONDS: \<close> with the elapsed time to 6 decimals: it prints them in this order
  and makes them, each followed by a newline, the contents of \<open>SalesResults.txt\<close>,
  whatever the file held before. Nothing else changes.
\<close>

theorem write_results_report:
  "let report = ''SALES SUMMARY'' # ''============='' # details
         @ [[], ''TOTAL_COST: '' @ format_2f ops t, ''ELAPSED_SECONDS: '' @ format_6f ops e]
   in write_results ops t details e w =
        w\<lparr>stdout := stdout w @ report,
          files := (files w)(RESULTS_FILENAME \<mapsto> concat (map (\<lambda>line. line @ newline) report))\<rparr>"
  unfolding Let_def by (rule write_results_eq)

theorem write_results_report_witness:
  "files (write_results whole_ops (- 20) [''VALID_SALES_ROWS: 3''] 2 demo_world) ''SalesResults.txt''
     = Some (''SALES SUMMARY'' @ newline @ ''============='' @ newline @ ''VALID_SALES_ROWS: 3''
             @ newline @ newline @ ''TOTAL_COST: -20.00'' @ newline
             @ ''ELAPSED_SECONDS: 2.000000'' @ newline)
   \<and> stdout (write_results whole_ops (- 20) [''VALID_SALES_ROWS: 3''] 2 demo_world)
     = [''started'', ''SALES SUMMARY'', ''============='', ''VALID_SALES_ROWS: 3'', [],
        ''TOTAL_COST: -20.00'', ''ELAPSED_SECONDS: 2.000000'']"
proof -
  have 1: "format_2f whole_ops (- 20) = ''-20.00''" by code_simp
  have 2: "format_6f whole_ops 2 = ''2.000000''" by code_simp
  have 3: "stdout demo_world = [''started'']" by (simp add: demo_world_def)
  from write_results_report [of "[''VALID_SALES_ROWS: 3'']" whole_ops "- 20" 2 demo_world]
  show ?thesis by (simp add: Let_def 1 2 3 RESULTS_FILENAME_def)
qed

subsection \<open>The Price Map\<close>

lemma build_row_valid:
  "catalogue_entry ops item = Some (t, x) \<Longrightarrow> build_row ops idx item prices = ([], Inr (prices(t \<mapsto> x)))"
  by (auto simp: catalogue_entry_def build_row_def Let_def split: json.splits sum.splits if_splits)

lemma build_row_result:
  "build_row ops idx item prices = (out, Inr prices') \<Longrightarrow>
     prices' = (case catalogue_entry ops item of None \<Rightarrow> prices | Some (t, x) \<Rightarrow> prices(t \<mapsto> x))"
  by (auto simp: catalogue_entry_def build_row_def Let_def split: json.splits sum.splits if_splits)

lemma build_loop_append:
  "build_loop ops idx (xs @ ys) prices =
     (case build_loop ops idx xs prices of
        (out, Inl e) \<Rightarrow> (out, Inl e)
      | (out, Inr prices') \<Rightarrow> emit out (build_loop ops (idx + length xs) ys prices'))"
proof (induction xs arbitrary: idx prices)
  case Nil
  show ?case by (cases "build_loop ops idx ys prices") simp
next
  case (Cons x xs)
  show ?case
  proof (cases "build_row ops idx x prices")
    case (Pair o1 r1)
    show ?thesis
    proof (cases r1)
      case (Inl e)
      with Pair show ?thesis by simp
    next
      case (Inr m)
      obtain o2 r2 where l: "build_loop ops (idx + 1) xs m = (o2, r2)"
        by (cases "build_loop ops (idx + 1) xs m")
      obtain o3 r3 where l3: "build_loop ops (idx + 1 + length xs) ys (projr r2) = (o3, r3)"
        by (cases "build_loop ops (idx + 1 + length xs) ys (projr r2)")
      from Pair Inr l l3 Cons.IH [of "idx + 1" m] show ?thesis
        by (cases r2) (simp_all add: add.assoc)
    qed
  qed
qed

lemma build_loop_keeps:
  "build_loop ops idx ys m = (out, Inr m') \<Longrightarrow>
   \<forall>y \<in> set ys. map_option fst (catalogue_entry ops y) \<noteq> Some t \<Longrightarrow> m' t = m t"
proof (induction ys arbitrary: idx m out)
  case Nil
  then show ?case by simp
next
  case (Cons y ys)
  obtain o1 r1 where r: "build_row ops idx y m = (o1, r1)" by (cases "build_row ops idx y m")
  with Cons.prems(1) obtain m1 o2 where m1: "r1 = Inr m1"
    and l: "build_loop ops (idx + 1) ys m1 = (o2, Inr m')"
    by (auto simp: emit_eq split: sum.splits)
  from r m1 have "m1 = (case catalogue_entry ops y of None \<Rightarrow> m | Some (t, x) \<Rightarrow> m(t \<mapsto> x))"
    by (simp add: build_row_result)
  moreover from Cons.prems(2) have "map_option fst (catalogue_entry ops y) \<noteq> Some t" by simp
  ultimately have "m1 t = m t" by (auto split: option.splits)
  moreover from Cons.prems(2) have "\<forall>y \<in> set ys. map_option fst (catalogue_entry ops y) \<noteq> Some t"
    by simp
  from Cons.IH [OF l this] have "m' t = m1 t" .
  ultimately show ?case by simp
qed

text \<open>
  Claim C6. When the Price Map is built from a catalogue array, a title is bound to the
  coerced price of the last valid row with that trimmed title, whatever the rows before
  it bound it to; and the pass over a valid row prints nothing, whether or not its title
  was bound already.
\<close>

theorem last_title_wins:
  assumes "build_price_map ops (JList (xs @ r # ys)) = (out, Inr prices)"
    and "catalogue_entry ops r = Some (t, x)"
    and "\<forall>y \<in> set ys. map_option fst (catalogue_entry ops y) \<noteq> Some t"
  shows "prices t = Some x \<and> build_row ops idx r m = ([], Inr (m(t \<mapsto> x)))"
proof -
  from assms(1) have b: "build_loop ops 1 (xs @ r # ys) Map.empty = (out, Inr prices)"
    by (simp add: build_price_map_def)
  obtain o1 r1 where l1: "build_loop ops 1 xs Map.empty = (o1, r1)"
    by (cases "build_loop ops 1 xs Map.empty")
  with b obtain m1 o2 where m1: "r1 = Inr m1"
    and l2: "build_loop ops (1 + length xs) (r # ys) m1 = (o2, Inr prices)"
    by (auto simp: build_loop_append emit_eq split: sum.splits)
  have "build_row ops (1 + length xs) r m1 = ([], Inr (m1(t \<mapsto> x)))"
    using assms(2) by (rule build_row_valid)
  with l2 obtain o3 where "build_loop ops (1 + length xs + 1) ys (m1(t \<mapsto> x)) = (o3, Inr prices)"
    by (auto simp: emit_eq)
  from build_loop_keeps [OF this assms(3)] have "prices t = Some x" by simp
  moreover have "build_row ops idx r m = ([], Inr (m(t \<mapsto> x)))"
    using assms(2) by (rule build_row_valid)
  ultimately show ?thesis by simp
qed

theorem last_title_wins_witness:
  "\<exists>out prices.
     build_price_map whole_ops (JList demo_catalogue) = (out, Inr prices)
     \<and> prices ''Widget'' = Some 10"
proof -
  let ?xs = "[JDict [(''title'', JStr ''Widget ''), (''price'', JStr ''9'')], JInt 3] :: int json list"
  let ?r = "JDict [(''title'', JStr '' Widget''), (''price'', JInt 10)] :: int json"
  let ?ys = "[JDict [(''title'', JStr ''Gadget''), (''price'', JNull)],
              JDict [(''title'', JStr ''Gadget''), (''price'', JInt 4)]] :: int json list"
  have d: "demo_catalogue = ?xs @ ?r # ?ys" by (simp add: demo_catalogue_def)
  have "case snd (build_price_map whole_ops (JList (?xs @ ?r # ?ys))) of Inl e \<Rightarrow> False | Inr p \<Rightarrow> True"
    by code_simp
  then obtain out prices
    where b: "build_price_map whole_ops (JList (?xs @ ?r # ?ys)) = (out, Inr prices)"
    by (cases "build_price_map whole_ops (JList (?xs @ ?r # ?ys))") (auto split: sum.splits)
  have e: "catalogue_entry whole_ops ?r = Some (''Widget'', 10)" by code_simp
  have n: "\<forall>y \<in> set ?ys. map_option fst (catalogue_entry whole_ops y) \<noteq> Some ''Widget''"
    by code_simp
  from last_title_wins [OF b e n] have "prices ''Widget'' = Some 10" by simp
  with b d show ?thesis by simp
qed

subsection \<open>An empty catalogue\<close>

lemma parse_sale_line_Some_out:
  assumes "parse_sale_line ops raw i = (out, Inr (Some sale))"
  shows "out = []"
proof (cases raw)
  case (JDict d)
  show ?thesis
  proof (cases "dict_get d ''Product''")
    case (JStr p)
    show ?thesis
    proof (cases "py_float ops (dict_get d ''Quantity'')")
      case (Inl e)
      show ?thesis using assms
        by (simp add: parse_sale_line_def Let_def JDict JStr Inl split: if_splits)
    next
      case (Inr q)
      show ?thesis using assms
        by (auto simp add: parse_sale_line_def Let_def JDict JStr Inr split: if_splits)
    qed
  qed (use assms JDict in \<open>simp_all add: parse_sale_line_def Let_def\<close>)
qed (use assms in \<open>simp_all add: parse_sale_line_def\<close>)

lemma sales_row_empty:
  assumes "sales_row ops Map.empty i raw a = (out, Inr a')"
  shows "total a' = total a \<and> detail_lines a' = detail_lines a
       \<and> out = (case validated ops raw of
                  None \<Rightarrow> fst (parse_sale_line ops raw i)
                | Some sale \<Rightarrow> [unknown_product_line i (product sale)])"
proof -
  obtain o1 r1 where p: "parse_sale_line ops raw i = (o1, r1)"
    by (cases "parse_sale_line ops raw i")
  then have v: "snd (parse_sale_line ops raw 0) = r1"
    using parse_sale_line_result [of ops raw i] by simp
  show ?thesis
  proof (cases r1)
    case (Inl e)
    with assms p show ?thesis by (simp add: sales_row_def)
  next
    case (Inr s)
    show ?thesis
    proof (cases s)
      case None
      with assms p v Inr show ?thesis by (auto simp: sales_row_def validated_def)
    next
      case (Some sale)
      with p Inr have "o1 = []" using parse_sale_line_Some_out by blast
      with assms p v Inr Some show ?thesis
        by (auto simp: sales_row_def validated_def unknown_product_line_def Let_def)
    qed
  qed
qed

lemma sales_loop_empty:
  "sales_loop ops Map.empty i rows a = (out, Inr a') \<Longrightarrow>
     total a' = total a \<and> detail_lines a' = detail_lines a
     \<and> out = empty_catalogue_diagnostics ops i rows"
proof (induction rows arbitrary: i a out)
  case Nil
  then show ?case by simp
next
  case (Cons raw rest)
  obtain o1 r1 where r: "sales_row ops Map.empty i raw a = (o1, r1)"
    by (cases "sales_row ops Map.empty i raw a")
  with Cons.prems obtain a1 o2 where a1: "r1 = Inr a1"
    and l: "sales_loop ops Map.empty (i + 1) rest a1 = (o2, Inr a')" and o: "out = o1 @ o2"
    by (auto simp: emit_eq split: sum.splits)
  from r a1 sales_row_empty [of ops i raw a o1 a1] Cons.IH [OF l] o show ?case by simp
qed

lemma empty_catalogue_diagnostics_mem:
  "k < length rows \<Longrightarrow> validated ops (rows ! k) = Some sale \<Longrightarrow>
     unknown_product_line (i + k) (product sale) \<in> set (empty_catalogue_diagnostics ops i rows)"
proof (induction rows arbitrary: i k)
  case Nil
  then show ?case by simp
next
  case (Cons raw rest)
  show ?case
  proof (cases k)
    case 0
    with Cons.prems show ?thesis by simp
  next
    case (Suc j)
    with Cons.prems have "j < length rest" "validated ops (rest ! j) = Some sale" by simp_all
    from Cons.IH [OF this, of "i + 1"] Suc show ?thesis by simp
  qed
qed

text \<open>
  Claim C7. An empty catalogue array gives the empty Price Map and prints nothing. With
  it, for a sales array, the total that \<open>compute_total\<close> returns is \<open>0.0\<close>, the only
  detail line is the \<open>VALID_SALES_ROWS\<close> line, and the lines printed hold the
  unknown-product diagnostic of every row that passes row-level validation.
\<close>

theorem empty_catalogue_total:
  assumes "build_price_map ops (JList []) = (out0, Inr prices)"
    and "compute_total ops prices (JList rows) = (out, Inr (t, details))"
  shows "out0 = [] \<and> t = fzero ops
       \<and> details = [''VALID_SALES_ROWS: ''
            @ str_nat (length (filter (\<lambda>raw. validated ops raw \<noteq> None) rows))]
       \<and> out = empty_catalogue_diagnostics ops 1 rows
       \<and> (\<forall>k < length rows.
            case validated ops (rows ! k) of
              None \<Rightarrow> True
            | Some sale \<Rightarrow> unknown_product_line (k + 1) (product sale) \<in> set out)"
proof -
  let ?a0 = "\<lparr>total = fzero ops, detail_lines = [], valid_rows = 0\<rparr>"
  from assms(1) have p: "prices = Map.empty" and o: "out0 = []"
    by (simp_all add: build_price_map_def)
  from assms(2) obtain a' where l: "sales_loop ops Map.empty 1 rows ?a0 = (out, Inr a')"
    and t: "t = total a'"
    and d: "details = (''VALID_SALES_ROWS: '' @ str_nat (valid_rows a')) # detail_lines a'"
    unfolding p by (auto simp: compute_total_def split: sum.splits prod.splits)
  from sales_loop_empty [OF l] have e: "total a' = fzero ops" "detail_lines a' = []"
    "out = empty_catalogue_diagnostics ops 1 rows" by simp_all
  from sales_loop_valid_rows [OF l]
  have v: "valid_rows a' = length (filter (\<lambda>raw. validated ops raw \<noteq> None) rows)" by simp
  have "\<forall>k < length rows.
          case validated ops (rows ! k) of
            None \<Rightarrow> True
          | Some sale \<Rightarrow> unknown_product_line (k + 1) (product sale) \<in> set out"
    using empty_catalogue_diagnostics_mem [of _ rows ops _ 1] e(3)
    by (auto split: option.splits)
  with o t d e v show ?thesis by simp
qed

theorem empty_catalogue_total_witness:
  "\<exists>out0 prices out t details.
     build_price_map whole_ops (JList []) = (out0, Inr prices)
     \<and> compute_total whole_ops prices (JList demo_sales) = (out, Inr (t, details))
     \<and> t = 0 \<and> format_2f whole_ops t = ''0.00'' \<and> details = [''VALID_SALES_ROWS: 3'']
     \<and> out = [''[Sales row 1] Product not found in catalogue: 'Widget'. Skipping.'',
               ''[Sales row 2] Product not found in catalogue: 'Nope'. Skipping.'',
               ''[Sales row 3] Invalid 'Quantity' for product 'Nope': abc. Skipping.'',
               ''[Sales row 4] Product not found in catalogue: 'Widget'. Skipping.'']"
proof -
  have b: "build_price_map whole_ops (JList []) = ([], Inr Map.empty)"
    by (simp add: build_price_map_def)
  have "case snd (compute_total whole_ops Map.empty (JList demo_sales)) of Inl e \<Rightarrow> False | Inr p \<Rightarrow> True"
    by code_simp
  then obtain out t details
    where c: "compute_total whole_ops Map.empty (JList demo_sales) = (out, Inr (t, details))"
    by (cases "compute_total whole_ops Map.empty (JList demo_sales)") (auto split: sum.splits)
  have 1: "str_nat (length (filter (\<lambda>raw. validated whole_ops raw \<noteq> None) demo_sales)) = ''3''"
    by code_simp
  have 2: "empty_catalogue_diagnostics whole_ops 1 demo_sales =
      [''[Sales row 1] Product not found in catalogue: 'Widget'. Skipping.'',
       ''[Sales row 2] Product not found in catalogue: 'Nope'. Skipping.'',
       ''[Sales row 3] Invalid 'Quantity' for product 'Nope': abc. Skipping.'',
       ''[Sales row 4] Product not found in catalogue: 'Widget'. Skipping.'']"
    by code_simp
  have 3: "fzero whole_ops = 0" by code_simp
  have 4: "format_2f whole_ops 0 = ''0.00''" by code_simp
  from empty_catalogue_total [OF b c]
  have t: "t = fzero whole_ops"
    and d: "details = [''VALID_SALES_ROWS: ''
            @ str_nat (length (filter (\<lambda>raw. validated whole_ops raw \<noteq> None) demo_sales))]"
    and o: "out = empty_catalogue_diagnostics whole_ops 1 demo_sales"
    by blast+
  from b c show ?thesis unfolding t d o 1 2 3 by (simp add: 4)
qed

subsection \<open>Runs of the script\<close>

lemma build_price_map_not_array:
  "\<not> is_array v \<Longrightarrow>
     build_price_map ops v =
       ([], Inl (Exn ValueError ''Price catalogue JSON must be a list of product objects.''))"
  by (cases v) (simp_all add: is_array_def build_price_map_def)

text \<open>
  Claim C3. When the catalogue file loads and parses but its top-level value is not an
  array, the run ends with exit status 1, an error message reaches the console, and no
  file is written, \<open>SalesResults.txt\<close> included. The message is that of the sales file
  when it fails to load; otherwise the \<open>ValueError\<close> of \<open>build_price_map\<close> leaves
  \<open>main\<close>, which does not catch it, and the interpreter reports it on standard error:
  \<open>ValueError: Price catalogue JSON must be a list of product objects.\<close>
\<close>

theorem catalogue_not_array_exits:
  assumes "length argv = 3" and "fs (argv ! 1) = Inr catalogue_json"
    and "\<not> is_array catalogue_json"
    and "script ops fs argv clock0 clock1 w = (w', status)"
  shows "status = 1 \<and> files w' = files w
       \<and> (case fs (argv ! 2) of
            Inl exc \<Rightarrow>
              if caught_by [OSError, JSONDecodeError, ValueError] exc
              then stdout w' = stdout w
                     @ [''Error reading sales file '' @ sq @ argv ! 2 @ sq @ '': '' @ exn_str exc]
                   \<and> stderr w' = stderr w
              else stdout w' = stdout w \<and> stderr w' = stderr w @ traceback exc
          | Inr sales_json \<Rightarrow>
              stdout w' = stdout w
              \<and> stderr w' = stderr w
                   @ [''Traceback (most recent call last):'',
                      ''ValueError: Price catalogue JSON must be a list of product objects.''])"
proof (cases "fs (argv ! 2)")
  case (Inl exc)
  show ?thesis
  proof (cases "caught_by [OSError, JSONDecodeError, ValueError] exc")
    case True
    with assms(1,2) Inl have "main ops fs argv clock0 clock1 w =
        (print_line (''Error reading sales file '' @ sq @ argv ! 2 @ sq @ '': '' @ exn_str exc) w,
         SysExit 1)"
      by (simp add: main_def load_json_file_def)
    with assms(4) Inl True show ?thesis by (auto simp: script_def print_line_def)
  next
    case False
    with assms(1,2) Inl have "main ops fs argv clock0 clock1 w = (w, Uncaught exc)"
      by (simp add: main_def load_json_file_def)
    with assms(4) Inl False show ?thesis by (auto simp: script_def)
  qed
next
  case (Inr sales_json)
  with assms(1,2) build_price_map_not_array [OF assms(3), of ops]
  have "main ops fs argv clock0 clock1 w =
      (w, Uncaught (Exn ValueError ''Price catalogue JSON must be a list of product objects.''))"
    by (simp add: main_def load_json_file_def)
  with assms(4) Inr show ?thesis by (auto simp: script_def traceback_def)
qed


theorem catalogue_not_array_exits_witness:
  "\<exists>w'. script whole_ops demo_fs [''computeSales.py'', ''object.json'', ''sales.json''] 5 7 demo_world
           = (w', 1)
     \<and> files w' = files demo_world \<and> stdout w' = stdout demo_world
     \<and> stderr w' = [''Traceback (most recent call last):'',
                     ''ValueError: Price catalogue JSON must be a list of product objects.'']"
proof -
  let ?argv = "[''computeSales.py'', ''object.json'', ''sales.json'']"
  have 1: "length ?argv = 3" by simp
  have 2: "demo_fs (?argv ! 1) = Inr (JDict [])" by (simp add: demo_fs_def)
  have 3: "\<not> is_array (JDict [] :: int json)" by (simp add: is_array_def)
  have 4: "demo_fs ''sales.json'' = Inr (JList demo_sales)" by (simp add: demo_fs_def)
  have 5: "stderr demo_world = []" by (simp add: demo_world_def)
  obtain w' status where s: "script whole_ops demo_fs ?argv 5 7 demo_world = (w', status)"
    by (cases "script whole_ops demo_fs ?argv 5 7 demo_world")
  from catalogue_not_array_exits [OF 1 2 3 s] s show ?thesis by (simp add: 4 5)
qed

lemma main_shape:
  "(\<exists>out oc. oc \<noteq> Returned
       \<and> (\<forall>clock0 clock1 w. main ops fs argv clock0 clock1 w = (w\<lparr>stdout := stdout w @ out\<rparr>, oc)))
   \<or> (\<exists>out t details.
         \<forall>clock0 clock1 w. main ops fs argv clock0 clock1 w
           = (write_results ops t details (fsub ops clock1 clock0) (w\<lparr>stdout := stdout w @ out\<rparr>),
              Returned))"
proof -
  have stop: ?thesis
    if "oc \<noteq> Returned"
      and "\<And>clock0 clock1 w. main ops fs argv clock0 clock1 w = (w\<lparr>stdout := stdout w @ out\<rparr>, oc)"
    for out oc
    using that by blast
  show ?thesis
  proof (cases "length argv = 3")
    case False
    show ?thesis
      by (rule stop [of "SysExit 1"
            "[''Usage: python computeSales.py priceCatalogue.json salesRecord.json'']"])
        (simp_all add: main_def print_line_def False)
  next
    case len: True
    show ?thesis
    proof (cases "fs (argv ! Suc 0)")
      case (Inl exc)
      show ?thesis
      proof (cases "caught_by [OSError, JSONDecodeError, ValueError] exc")
        case True
        show ?thesis
          by (rule stop [of "SysExit 1"
                "[''Error reading catalogue file '' @ sq @ argv ! 1 @ sq @ '': '' @ exn_str exc]"])
            (simp_all add: main_def Let_def load_json_file_def print_line_def len Inl True)
      next
        case False
        show ?thesis
          by (rule stop [of "Uncaught exc" "[]"])
            (simp_all add: main_def Let_def load_json_file_def len Inl False)
      qed
    next
      case c: (Inr catalogue_json)
      show ?thesis
      proof (cases "fs (argv ! 2)")
        case (Inl exc)
        show ?thesis
        proof (cases "caught_by [OSError, JSONDecodeError, ValueError] exc")
          case True
          show ?thesis
            by (rule stop [of "SysExit 1"
                  "[''Error reading sales file '' @ sq @ argv ! 2 @ sq @ '': '' @ exn_str exc]"])
              (simp_all add: main_def Let_def load_json_file_def print_line_def len c Inl True)
        next
          case False
          show ?thesis
            by (rule stop [of "Uncaught exc" "[]"])
              (simp_all add: main_def Let_def load_json_file_def len c Inl False)
        qed
      next
        case s: (Inr sales_json)
        obtain out1 r1 where b: "build_price_map ops catalogue_json = (out1, r1)"
          by (cases "build_price_map ops catalogue_json")
        show ?thesis
        proof (cases r1)
          case (Inl exc)
          show ?thesis
            by (rule stop [of "Uncaught exc" out1])
              (simp_all add: main_def Let_def load_json_file_def print_all_stdout len c s b Inl)
        next
          case p: (Inr prices)
          obtain out2 r2 where t: "compute_total ops prices sales_json = (out2, r2)"
            by (cases "compute_total ops prices sales_json")
          show ?thesis
          proof (cases r2)
            case (Inl exc)
            show ?thesis
            proof (cases "caught_by [ValueError] exc")
              case True
              show ?thesis
                by (rule stop [of "SysExit 1"
                      "out1 @ out2 @ [''Error processing data: '' @ exn_str exc]"])
                  (simp_all add: main_def Let_def load_json_file_def print_all_stdout print_line_def
                    len c s b p t Inl True)
            next
              case False
              show ?thesis
                by (rule stop [of "Uncaught exc" "out1 @ out2"])
                  (simp_all add: main_def Let_def load_json_file_def print_all_stdout len c s b p t Inl False)
            qed
          next
            case (Inr td)
            obtain t' details where td: "td = (t', details)" by (cases td)
            have "\<forall>clock0 clock1 w. main ops fs argv clock0 clock1 w
                    = (write_results ops t' details (fsub ops clock1 clock0)
                         (w\<lparr>stdout := stdout w @ (out1 @ out2)\<rparr>), Returned)"
              by (simp add: main_def Let_def load_json_file_def print_all_stdout len c s b p t Inr td)
            then show ?thesis by blast
          qed
        qed
      qed
    qed
  qed
qed

text \<open>
  Claim C8. Take two runs on the same command line and the same input files, whatever
  the clock reads in each and whatever world each starts from (the second may start
  where the first ended, with its report on disk). They end with the same exit status
  and add the same lines to standard error; and either they print the same lines and
  write no file, or they print the same lines up to a last line \<open>ELAPSED_SECONDS\<close> and
  make the same report, up to that last line, the contents of \<open>SalesResults.txt\<close>.
\<close>

theorem rerun_same_report:
  assumes "script ops fs argv c0 c1 wa = (w1, s1)" and "script ops fs argv d0 d1 wb = (w2, s2)"
  shows "s1 = s2
       \<and> (\<exists>printed errors.
            stderr w1 = stderr wa @ errors \<and> stderr w2 = stderr wb @ errors
          \<and> ((stdout w1 = stdout wa @ printed \<and> stdout w2 = stdout wb @ printed
               \<and> files w1 = files wa \<and> files w2 = files wb)
             \<or> (\<exists>report.
                  stdout w1 = stdout wa @ printed @ report
                    @ [''ELAPSED_SECONDS: '' @ format_6f ops (fsub ops c1 c0)]
                \<and> stdout w2 = stdout wb @ printed @ report
                    @ [''ELAPSED_SECONDS: '' @ format_6f ops (fsub ops d1 d0)]
                \<and> files w1 = (files wa)(RESULTS_FILENAME \<mapsto> concat (map (\<lambda>line. line @ newline)
                     (report @ [''ELAPSED_SECONDS: '' @ format_6f ops (fsub ops c1 c0)])))
                \<and> files w2 = (files wb)(RESULTS_FILENAME \<mapsto> concat (map (\<lambda>line. line @ newline)
                     (report @ [''ELAPSED_SECONDS: '' @ format_6f ops (fsub ops d1 d0)]))))))"
proof -
  from main_shape [of ops fs argv] show ?thesis
  proof (elim disjE exE conjE)
    fix out oc
    assume oc: "oc \<noteq> Returned"
      and m: "\<forall>clock0 clock1 w. main ops fs argv clock0 clock1 w = (w\<lparr>stdout := stdout w @ out\<rparr>, oc)"
    let ?errors = "case oc of Uncaught e \<Rightarrow> traceback e | _ \<Rightarrow> []"
    from m assms oc have "s1 = s2" "stderr w1 = stderr wa @ ?errors" "stderr w2 = stderr wb @ ?errors"
      "stdout w1 = stdout wa @ out" "stdout w2 = stdout wb @ out"
      "files w1 = files wa" "files w2 = files wb"
      by (cases oc; auto simp: script_def)+
    then show ?thesis by blast
  next
    fix out t details
    assume m: "\<forall>clock0 clock1 w. main ops fs argv clock0 clock1 w
                = (write_results ops t details (fsub ops clock1 clock0) (w\<lparr>stdout := stdout w @ out\<rparr>),
                   Returned)"
    let ?report = "''SALES SUMMARY'' # ''============='' # details @ [[], ''TOTAL_COST: '' @ format_2f ops t]"
    from m assms
    have 1: "w1 = write_results ops t details (fsub ops c1 c0) (wa\<lparr>stdout := stdout wa @ out\<rparr>)" "s1 = 0"
      and 2: "w2 = write_results ops t details (fsub ops d1 d0) (wb\<lparr>stdout := stdout wb @ out\<rparr>)" "s2 = 0"
      by (simp_all add: script_def)
    have "stdout w1 = stdout wa @ out @ ?report @ [''ELAPSED_SECONDS: '' @ format_6f ops (fsub ops c1 c0)]"
      "stdout w2 = stdout wb @ out @ ?report @ [''ELAPSED_SECONDS: '' @ format_6f ops (fsub ops d1 d0)]"
      "files w1 = (files wa)(RESULTS_FILENAME \<mapsto> concat (map (\<lambda>line. line @ newline)
                   (?report @ [''ELAPSED_SECONDS: '' @ format_6f ops (fsub ops c1 c0)])))"
      "files w2 = (files wb)(RESULTS_FILENAME \<mapsto> concat (map (\<lambda>line. line @ newline)
                   (?report @ [''ELAPSED_SECONDS: '' @ format_6f ops (fsub ops d1 d0)])))"
      "stderr w1 = stderr wa @ []" "stderr w2 = stderr wb @ []"
      unfolding 1 2 write_results_eq by simp_all
    with 1 2 show ?thesis by blast
  qed
qed

theorem rerun_same_report_witness:
  "\<exists>w1 w2 s.
     script whole_ops demo_fs demo_argv 5 7 demo_world = (w1, s)
     \<and> script whole_ops demo_fs demo_argv 1 9 w1 = (w2, s)
     \<and> s = 0
     \<and> stdout w1 = stdout demo_world
         @ [''[Catalogue row 2] Invalid item (not an object). Skipping.'',
            ''[Catalogue row 4] Invalid 'price' for title 'Gadget': None. Skipping.'',
            ''[Sales row 2] Product not found in catalogue: 'Nope'. Skipping.'',
            ''[Sales row 3] Invalid 'Quantity' for product 'Nope': abc. Skipping.'',
            ''SALES SUMMARY'',
            ''============='',
            ''VALID_SALES_ROWS: 3'',
            ''- SALE_ID=None | DATE=N/A | PRODUCT='Widget' | QTY=-3 | UNIT=10.00 | LINE_TOTAL=-30.00'',
            ''- SALE_ID=7 | DATE=N/A | PRODUCT='Widget' | QTY=1 | UNIT=10.00 | LINE_TOTAL=10.00'',
            [],
            ''TOTAL_COST: -20.00'',
            ''ELAPSED_SECONDS: 2.000000'']
     \<and> stdout w2 = stdout w1
         @ [''[Catalogue row 2] Invalid item (not an object). Skipping.'',
            ''[Catalogue row 4] Invalid 'price' for title 'Gadget': None. Skipping.'',
            ''[Sales row 2] Product not found in catalogue: 'Nope'. Skipping.'',
            ''[Sales row 3] Invalid 'Quantity' for product 'Nope': abc. Skipping.'',
            ''SALES SUMMARY'',
            ''============='',
            ''VALID_SALES_ROWS: 3'',
            ''- SALE_ID=None | DATE=N/A | PRODUCT='Widget' | QTY=-3 | UNIT=10.00 | LINE_TOTAL=-30.00'',
            ''- SALE_ID=7 | DATE=N/A | PRODUCT='Widget' | QTY=1 | UNIT=10.00 | LINE_TOTAL=10.00'',
            [],
            ''TOTAL_COST: -20.00'',
            ''ELAPSED_SECONDS: 8.000000'']
     \<and> files w1 ''SalesResults.txt'' \<noteq> Some ''an older report''
     \<and> files w2 ''SalesResults.txt'' \<noteq> files w1 ''SalesResults.txt''"
proof -
  let ?lines =
    "[''[Catalogue row 2] Invalid item (not an object). Skipping.'',
      ''[Catalogue row 4] Invalid 'price' for title 'Gadget': None. Skipping.'',
      ''[Sales row 2] Product not found in catalogue: 'Nope'. Skipping.'',
      ''[Sales row 3] Invalid 'Quantity' for product 'Nope': abc. Skipping.'',
      ''SALES SUMMARY'',
      ''============='',
      ''VALID_SALES_ROWS: 3'',
      ''- SALE_ID=None | DATE=N/A | PRODUCT='Widget' | QTY=-3 | UNIT=10.00 | LINE_TOTAL=-30.00'',
      ''- SALE_ID=7 | DATE=N/A | PRODUCT='Widget' | QTY=1 | UNIT=10.00 | LINE_TOTAL=10.00'',
      [],
      ''TOTAL_COST: -20.00'']"
  obtain w1 s1 where r1: "script whole_ops demo_fs demo_argv 5 7 demo_world = (w1, s1)"
    by (cases "script whole_ops demo_fs demo_argv 5 7 demo_world")
  obtain w2 s2 where r2: "script whole_ops demo_fs demo_argv 1 9 w1 = (w2, s2)"
    by (cases "script whole_ops demo_fs demo_argv 1 9 w1")
  from rerun_same_report [OF r1 r2] have s: "s1 = s2" by blast
  have w1: "w1 = fst (script whole_ops demo_fs demo_argv 5 7 demo_world)"
    and w2: "w2 = fst (script whole_ops demo_fs demo_argv 1 9
                    (fst (script whole_ops demo_fs demo_argv 5 7 demo_world)))"
    using r1 r2 by simp_all
  have "snd (script whole_ops demo_fs demo_argv 5 7 demo_world) = 0" by code_simp
  with r1 have s1: "s1 = 0" by simp
  have a: "stdout w1 = stdout demo_world @ ?lines @ [''ELAPSED_SECONDS: 2.000000'']"
    unfolding w1 by code_simp
  have b: "stdout w2 = stdout w1 @ ?lines @ [''ELAPSED_SECONDS: 8.000000'']"
    unfolding w2 w1 by code_simp
  have c: "files w1 ''SalesResults.txt'' \<noteq> Some ''an older report''"
    unfolding w1 by code_simp
  have d: "files w2 ''SalesResults.txt'' \<noteq> files w1 ''SalesResults.txt''"
    unfolding w2 w1 by code_simp
  from r1 r2 s s1 a b c d show ?thesis by simp
qed

end
